theory Spec2Isabelle
  imports Main "HOL-Library.AList" "HOL-Library.Sublist"
begin

section \<open>Biome mapping (solutions/level\_1/generate\_evidence.py)\<close>

text \<open>
  \<^verbatim>\<open>
  def get_biome(x: int, y: int) -> str:
      if x < 50 and y >= 50:   return "CRYO"
      elif x >= 50 and y >= 50: return "VOLCANIC"
      elif x < 50 and y < 50:   return "BIOLUMINESCENT"
      else:                     return "FOSSILIZED"
  \<close>
  Python integers are unbounded, so the coordinates are \<open>int\<close>. The function has no
  raise and no loop; the labels are the strings the source returns.
\<close>

definition get_biome :: "int \<Rightarrow> int \<Rightarrow> string" where
  "get_biome x y =
     (if x < 50 \<and> y \<ge> 50 then ''CRYO''
      else if x \<ge> 50 \<and> y \<ge> 50 then ''VOLCANIC''
      else if x < 50 \<and> y < 50 then ''BIOLUMINESCENT''
      else ''FOSSILIZED'')"

section \<open>Data model (dashboard/backend/app/models/participants.py)\<close>

text \<open>
  The request and response models are pydantic classes; each is a record with the
  source's field names, \<open>Optional\<close> fields as \<open>option\<close>. A \<open>datetime\<close> is a point
  on the UTC time line, counted in microseconds.
\<close>

type_synonym datetime = int

record ParticipantInit =
  event_code :: string
  username :: string
  project_id :: "string option"

record ParticipantInitResponse =
  participant_id :: string
  username :: string
  event_code :: string
  starting_x :: int
  starting_y :: int

record ParticipantRegister =
  participant_id :: string
  suit_color :: "string option"
  appearance :: "string option"

record ParticipantResponse =
  participant_id :: string
  username :: string
  event_code :: string
  x :: int
  y :: int
  location_confirmed :: bool
  portrait_url :: "string option"
  icon_url :: "string option"
  suit_color :: "string option"
  registered_at :: "datetime option"
  active :: bool
  evidence_urls :: "(string \<times> string) list option"
  level_0_complete :: "bool option"
  level_1_complete :: "bool option"
  level_2_complete :: "bool option"
  level_3_complete :: "bool option"
  level_4_complete :: "bool option"
  level_5_complete :: "bool option"

record ParticipantUpdate =
  level_0_complete :: "bool option"
  level_1_complete :: "bool option"
  level_2_complete :: "bool option"
  level_3_complete :: "bool option"
  level_4_complete :: "bool option"
  level_5_complete :: "bool option"
  completion_percentage :: "int option"

text \<open>
  The stored participant document. \<open>init_participant\<close> writes the first fourteen
  fields (lines 77-92 of routes/participants.py); \<open>evidence_urls\<close>, the level flags
  and \<open>completion_percentage\<close> are the keys later updates add, \<open>None\<close> while the
  document lacks them. A dictionary of named URLs is an association list in insertion
  order.
\<close>

record participant =
  participant_id :: string
  username :: string
  event_code :: string
  project_id :: "string option"
  x :: int
  y :: int
  location_confirmed :: bool
  portrait_url :: "string option"
  icon_url :: "string option"
  suit_color :: "string option"
  appearance :: "string option"
  registered_at :: "datetime option"
  created_at :: datetime
  active :: bool
  evidence_urls :: "(string \<times> string) list option"
  level_0_complete :: "bool option"
  level_1_complete :: "bool option"
  level_2_complete :: "bool option"
  level_3_complete :: "bool option"
  level_4_complete :: "bool option"
  level_5_complete :: "bool option"
  completion_percentage :: "int option"

text \<open>
  Modelled from the spec: the event document, whose model (models/events.py) is not
  among the sources. Section 3 of the specification gives it a unique \<open>code\<close>, an
  \<open>active\<close> flag and the integers \<open>participant_count\<close> and \<open>max_participants\<close>.
  \<open>init_participant\<close> reads the last three with \<open>event.get(key, default)\<close>, so each
  may be missing from the document: \<open>None\<close>. A document that holds its code is a
  non-empty dictionary, so \<open>not event\<close> is true exactly when no document was found.
\<close>

record event =
  code :: string
  active :: "bool option"
  participant_count :: "int option"
  max_participants :: "int option"

text \<open>
  An uploaded file (FastAPI's \<open>UploadFile\<close>): the content type its part of the request
  declares, \<open>None\<close> when the part declares none, and the bytes \<open>file.read()\<close> returns.
\<close>

record UploadFile =
  content_type :: "string option"
  contents :: string

text \<open>
  Every raise of the handlers is a value: \<open>HTTPException status detail\<close> for the
  explicit raises, \<open>ValueError\<close> for \<open>random.randint\<close> on an empty range,
  \<open>TypeError\<close> for \<open>"video" in None\<close>, \<open>UpstreamFailure\<close> for a storage upload
  that fails.
\<close>

datatype error = HTTPException nat string | ValueError | TypeError | UpstreamFailure

text \<open>
  The dictionary passed to \<open>update_participant\<close> maps field names to new values; it is
  a list of typed assignments, one constructor per key the handlers write.
\<close>

datatype field_update =
    Set_portrait_url string
  | Set_icon_url string
  | Set_registered_at datetime
  | Set_active bool
  | Set_suit_color string
  | Set_appearance string
  | Set_evidence_urls "(string \<times> string) list"
  | Set_x int
  | Set_y int
  | Set_location_confirmed bool
  | Set_level_0_complete bool
  | Set_level_1_complete bool
  | Set_level_2_complete bool
  | Set_level_3_complete bool
  | Set_level_4_complete bool
  | Set_level_5_complete bool
  | Set_completion_percentage int

fun set_field :: "field_update \<Rightarrow> participant \<Rightarrow> participant" where
  "set_field (Set_portrait_url v) p = p\<lparr>participant.portrait_url := Some v\<rparr>"
| "set_field (Set_icon_url v) p = p\<lparr>participant.icon_url := Some v\<rparr>"
| "set_field (Set_registered_at v) p = p\<lparr>participant.registered_at := Some v\<rparr>"
| "set_field (Set_active v) p = p\<lparr>participant.active := v\<rparr>"
| "set_field (Set_suit_color v) p = p\<lparr>participant.suit_color := Some v\<rparr>"
| "set_field (Set_appearance v) p = p\<lparr>participant.appearance := Some v\<rparr>"
| "set_field (Set_evidence_urls v) p = p\<lparr>participant.evidence_urls := Some v\<rparr>"
| "set_field (Set_x v) p = p\<lparr>participant.x := v\<rparr>"
| "set_field (Set_y v) p = p\<lparr>participant.y := v\<rparr>"
| "set_field (Set_location_confirmed v) p = p\<lparr>participant.location_confirmed := v\<rparr>"
| "set_field (Set_level_0_complete v) p = p\<lparr>participant.level_0_complete := Some v\<rparr>"
| "set_field (Set_level_1_complete v) p = p\<lparr>participant.level_1_complete := Some v\<rparr>"
| "set_field (Set_level_2_complete v) p = p\<lparr>participant.level_2_complete := Some v\<rparr>"
| "set_field (Set_level_3_complete v) p = p\<lparr>participant.level_3_complete := Some v\<rparr>"
| "set_field (Set_level_4_complete v) p = p\<lparr>participant.level_4_complete := Some v\<rparr>"
| "set_field (Set_level_5_complete v) p = p\<lparr>participant.level_5_complete := Some v\<rparr>"
| "set_field (Set_completion_percentage v) p = p\<lparr>participant.completion_percentage := Some v\<rparr>"

section \<open>Persistence and storage collaborators\<close>

text \<open>
  The state the handlers act on: the two document collections keyed by document id, the
  journal of writes made to them, the objects held by the storage collaborator, and the
  paths whose upload the collaborator refuses.
\<close>

datatype db_write = Created string | Updated string "field_update list"

record world =
  events :: "(string \<times> event) list"
  participants :: "(string \<times> participant) list"
  journal :: "db_write list"
  bucket :: "(string \<times> UploadFile) list"
  refused :: "string list"

text \<open>
  Modelled from the spec: the functions of app/database.py, which is not among the
  sources. \<open>get_event\<close> and \<open>get_participant\<close> fetch a document by its key and
  \<open>check_username_exists\<close> asks whether some participant of the event has the username;
  all three only read. \<open>create_participant\<close> stores the document under its
  \<open>participant_id\<close> and increments the event's \<open>participant_count\<close> (section 4.2: the
  increment is a side effect of participant creation). \<open>update_participant\<close> is the
  specification's \<open>merge_update\<close>: it sets the fields of the given dictionary and leaves
  all others untouched; no handler looks at what it returns, so only the resulting state
  is modelled.
\<close>

definition get_event :: "string \<Rightarrow> world \<Rightarrow> event option" where
  "get_event c w = map_of (events w) c"

definition get_participant :: "string \<Rightarrow> world \<Rightarrow> participant option" where
  "get_participant pid w = map_of (participants w) pid"

definition check_username_exists :: "string \<Rightarrow> string \<Rightarrow> world \<Rightarrow> bool" where
  "check_username_exists c u w =
     list_ex (\<lambda>(k, p). participant.event_code p = c \<and> participant.username p = u) (participants w)"

definition count_up :: "event \<Rightarrow> event" where
  "count_up e = e\<lparr>participant_count := Some (case participant_count e of None \<Rightarrow> 1 | Some n \<Rightarrow> n + 1)\<rparr>"

definition create_participant :: "participant \<Rightarrow> world \<Rightarrow> world" where
  "create_participant p w =
     w\<lparr>participants := AList.update (participant.participant_id p) p (participants w),
       events := AList.map_entry (participant.event_code p) count_up (events w),
       journal := journal w @ [Created (participant.participant_id p)]\<rparr>"

definition merge_fields :: "field_update list \<Rightarrow> participant \<Rightarrow> participant" where
  "merge_fields updates p = fold set_field updates p"

definition update_participant :: "string \<Rightarrow> field_update list \<Rightarrow> world \<Rightarrow> world" where
  "update_participant pid updates w =
     w\<lparr>participants := AList.map_entry pid (merge_fields updates) (participants w),
       journal := journal w @ [Updated pid updates]\<rparr>"

text \<open>
  Modelled from the spec: \<open>upload_avatar_image\<close> of app/storage.py, which is not among
  the sources. It stores the bytes under the path, overwriting an earlier object there
  (section 5), or fails with an error that reaches the caller (section 7).
  \<open>get_avatar_url\<close>, of the same module, turns a stored path into a URL; the handlers
  take it as a parameter.
\<close>

definition upload_avatar_image :: "string \<Rightarrow> UploadFile \<Rightarrow> world \<Rightarrow> error + world" where
  "upload_avatar_image path file w =
     (if path \<in> set (refused w) then Inl UpstreamFailure
      else Inr (w\<lparr>bucket := AList.update path file (bucket w)\<rparr>))"

text \<open>
  Python's \<open>random.randint(a, b)\<close> returns an integer \<open>N\<close> with \<open>a \<le> N \<le> b\<close> and
  raises \<open>ValueError\<close> when the range is empty. The argument \<open>r\<close> is the raw draw of the
  random source, folded into the range.
\<close>

definition randint :: "int \<Rightarrow> int \<Rightarrow> nat \<Rightarrow> error + int" where
  "randint a b r = (if b < a then Inl ValueError else Inr (a + int r mod (b - a + 1)))"

text \<open>
  Python truth of an optional string: \<open>None\<close> and the empty string are false.
\<close>

definition truthy :: "string option \<Rightarrow> bool" where
  "truthy v = (case v of None \<Rightarrow> False | Some s \<Rightarrow> s \<noteq> [])"

section \<open>Handlers (dashboard/backend/app/routes/participants.py)\<close>

text \<open>
  \<open>ParticipantResponse(**participant)\<close>: the response model picks its own fields out
  of the document and ignores the rest.
\<close>

definition response_of :: "participant \<Rightarrow> ParticipantResponse" where
  "response_of p =
     \<lparr>ParticipantResponse.participant_id = participant.participant_id p,
      username = participant.username p,
      event_code = participant.event_code p,
      x = participant.x p,
      y = participant.y p,
      location_confirmed = participant.location_confirmed p,
      portrait_url = participant.portrait_url p,
      icon_url = participant.icon_url p,
      suit_color = participant.suit_color p,
      registered_at = participant.registered_at p,
      active = participant.active p,
      evidence_urls = participant.evidence_urls p,
      level_0_complete = participant.level_0_complete p,
      level_1_complete = participant.level_1_complete p,
      level_2_complete = participant.level_2_complete p,
      level_3_complete = participant.level_3_complete p,
      level_4_complete = participant.level_4_complete p,
      level_5_complete = participant.level_5_complete p\<rparr>"

definition get_participant_info :: "string \<Rightarrow> world \<Rightarrow> error + ParticipantResponse" where
  "get_participant_info pid w =
     (case get_participant pid w of
        None \<Rightarrow> Inl (HTTPException 404 ''Participant not found'')
      | Some p \<Rightarrow> Inr (response_of p))"

text \<open>
  \<open>init_participant\<close>, lines 48-102. \<open>MAP_WIDTH\<close> and \<open>MAP_HEIGHT\<close> come from
  app/config.py, which is not among the sources: they are parameters. The random inputs
  of one call are the value of \<open>secrets.token_hex(4)\<close> and the two raw draws behind
  \<open>random.randint\<close>; \<open>now\<close> is \<open>datetime.now(timezone.utc)\<close>.
\<close>

record entropy =
  token_hex :: string
  draw_x :: nat
  draw_y :: nat

definition new_participant ::
  "ParticipantInit \<Rightarrow> string \<Rightarrow> int \<Rightarrow> int \<Rightarrow> datetime \<Rightarrow> participant" where
  "new_participant d pid sx sy now =
     \<lparr>participant.participant_id = pid,
      username = ParticipantInit.username d,
      event_code = ParticipantInit.event_code d,
      project_id = ParticipantInit.project_id d,
      x = sx,
      y = sy,
      location_confirmed = False,
      portrait_url = None,
      icon_url = None,
      suit_color = None,
      appearance = None,
      registered_at = None,
      created_at = now,
      active = True,
      evidence_urls = None,
      level_0_complete = None,
      level_1_complete = None,
      level_2_complete = None,
      level_3_complete = None,
      level_4_complete = None,
      level_5_complete = None,
      completion_percentage = None\<rparr>"

text \<open>
  \<open>event.get("active", True)\<close>, \<open>event.get("participant_count", 0)\<close> and
  \<open>event.get("max_participants", 500)\<close>: the field, or the default when the document
  lacks it.
\<close>

definition get_active :: "event \<Rightarrow> bool" where
  "get_active ev = (case event.active ev of None \<Rightarrow> True | Some a \<Rightarrow> a)"

definition get_participant_count :: "event \<Rightarrow> int" where
  "get_participant_count ev = (case participant_count ev of None \<Rightarrow> 0 | Some n \<Rightarrow> n)"

definition get_max_participants :: "event \<Rightarrow> int" where
  "get_max_participants ev = (case max_participants ev of None \<Rightarrow> 500 | Some m \<Rightarrow> m)"

definition init_participant ::
  "int \<Rightarrow> int \<Rightarrow> ParticipantInit \<Rightarrow> entropy \<Rightarrow> datetime \<Rightarrow> world
     \<Rightarrow> (error + ParticipantInitResponse) \<times> world" where
  "init_participant MAP_WIDTH MAP_HEIGHT d rnd now w =
     (case get_event (ParticipantInit.event_code d) w of
        None \<Rightarrow> (Inl (HTTPException 404 ''Event not found''), w)
      | Some ev \<Rightarrow>
          if \<not> get_active ev
          then (Inl (HTTPException 410 ''Event has ended''), w)
          else if get_participant_count ev \<ge> get_max_participants ev
          then (Inl (HTTPException 409 ''Event is full''), w)
          else if check_username_exists (ParticipantInit.event_code d) (ParticipantInit.username d) w
          then (Inl (HTTPException 409 ''Username already taken''), w)
          else
            (let pid = token_hex rnd in
             case randint 10 (MAP_WIDTH - 10) (draw_x rnd) of
               Inl e \<Rightarrow> (Inl e, w)
             | Inr sx \<Rightarrow>
                (case randint 10 (MAP_HEIGHT - 10) (draw_y rnd) of
                   Inl e \<Rightarrow> (Inl e, w)
                 | Inr sy \<Rightarrow>
                     (Inr \<lparr>ParticipantInitResponse.participant_id = pid,
                           username = ParticipantInit.username d,
                           event_code = ParticipantInit.event_code d,
                           starting_x = sx,
                           starting_y = sy\<rparr>,
                      create_participant (new_participant d pid sx sy now) w))))"

text \<open>
  \<open>register_participant\<close>, lines 155-189. The document read back at line 188 is the
  one just updated; the existence check at line 164 makes the lookup succeed.
\<close>

definition register_participant ::
  "ParticipantRegister \<Rightarrow> datetime \<Rightarrow> world \<Rightarrow> (error + ParticipantResponse) \<times> world" where
  "register_participant d now w =
     (case get_participant (ParticipantRegister.participant_id d) w of
        None \<Rightarrow> (Inl (HTTPException 404 ''Participant not found''), w)
      | Some p \<Rightarrow>
          if \<not> truthy (participant.portrait_url p) \<or> \<not> truthy (participant.icon_url p)
          then (Inl (HTTPException 400 ''Avatar must be uploaded before registration''), w)
          else
            (let updates = [Set_registered_at now, Set_active True];
                 updates = (case ParticipantRegister.suit_color d of
                              None \<Rightarrow> updates
                            | Some c \<Rightarrow> if c \<noteq> [] then updates @ [Set_suit_color c] else updates);
                 updates = (case ParticipantRegister.appearance d of
                              None \<Rightarrow> updates
                            | Some a \<Rightarrow> if a \<noteq> [] then updates @ [Set_appearance a] else updates);
                 w' = update_participant (ParticipantRegister.participant_id d) updates w
             in case get_participant (ParticipantRegister.participant_id d) w' of
                  None \<Rightarrow> (Inl TypeError, w')
                | Some updated \<Rightarrow> (Inr (response_of updated), w')))"

text \<open>
  \<open>update_participant_details\<close>, lines 265-287. \<open>updates.dict()\<close> lists the seven
  fields of the request in declaration order; the comprehension keeps those that are not
  \<open>None\<close>.
\<close>

definition dict_ParticipantUpdate :: "ParticipantUpdate \<Rightarrow> field_update option list" where
  "dict_ParticipantUpdate u =
     [map_option Set_level_0_complete (ParticipantUpdate.level_0_complete u),
      map_option Set_level_1_complete (ParticipantUpdate.level_1_complete u),
      map_option Set_level_2_complete (ParticipantUpdate.level_2_complete u),
      map_option Set_level_3_complete (ParticipantUpdate.level_3_complete u),
      map_option Set_level_4_complete (ParticipantUpdate.level_4_complete u),
      map_option Set_level_5_complete (ParticipantUpdate.level_5_complete u),
      map_option Set_completion_percentage (ParticipantUpdate.completion_percentage u)]"

definition update_participant_details ::
  "string \<Rightarrow> ParticipantUpdate \<Rightarrow> world \<Rightarrow> (error + ParticipantResponse) \<times> world" where
  "update_participant_details pid updates w =
     (case get_participant pid w of
        None \<Rightarrow> (Inl (HTTPException 404 ''Participant not found''), w)
      | Some p \<Rightarrow>
          (let update_data = List.map_filter id (dict_ParticipantUpdate updates) in
           if update_data = [] then (Inr (response_of p), w)
           else
             (let w' = update_participant pid update_data w
              in case get_participant pid w' of
                   None \<Rightarrow> (Inl TypeError, w')
                 | Some updated \<Rightarrow> (Inr (response_of updated), w'))))"

text \<open>
  \<open>upload_avatar\<close>, lines 105-152. Both content types are validated before anything
  is stored; an upload that fails raises before \<open>update_participant\<close> is reached.
\<close>

record AvatarResult =
  status :: string
  portrait_url :: string
  icon_url :: string

definition upload_avatar ::
  "(string \<Rightarrow> string) \<Rightarrow> string \<Rightarrow> UploadFile \<Rightarrow> UploadFile \<Rightarrow> world
     \<Rightarrow> (error + AvatarResult) \<times> world" where
  "upload_avatar get_avatar_url pid portrait icon w =
     (case get_participant pid w of
        None \<Rightarrow> (Inl (HTTPException 404 ''Participant not found''), w)
      | Some p \<Rightarrow>
          if content_type portrait \<notin> {Some ''image/png'', Some ''image/jpeg''}
          then (Inl (HTTPException 400 ''Invalid portrait file type. Must be PNG or JPEG.''), w)
          else if content_type icon \<notin> {Some ''image/png'', Some ''image/jpeg''}
          then (Inl (HTTPException 400 ''Invalid icon file type. Must be PNG or JPEG.''), w)
          else
            (let c = participant.event_code p;
                 portrait_path = ''avatars/'' @ c @ ''/'' @ pid @ ''/portrait.png''
             in case upload_avatar_image portrait_path portrait w of
                  Inl e \<Rightarrow> (Inl e, w)
                | Inr w1 \<Rightarrow>
                   (let purl = get_avatar_url portrait_path;
                        icon_path = ''avatars/'' @ c @ ''/'' @ pid @ ''/icon.png''
                    in case upload_avatar_image icon_path icon w1 of
                         Inl e \<Rightarrow> (Inl e, w1)
                       | Inr w2 \<Rightarrow>
                          (let iurl = get_avatar_url icon_path
                           in (Inr \<lparr>status = ''success'', portrait_url = purl, icon_url = iurl\<rparr>,
                               update_participant pid [Set_portrait_url purl, Set_icon_url iurl] w2)))))"

text \<open>
  \<open>upload_evidence\<close>, lines 192-242. The extension test of lines 223-228 is
  \<open>evidence_ext\<close>; \<open>"video" in s\<close> on strings holds when \<open>''video''\<close> occurs in \<open>s\<close>
  as a contiguous substring (\<open>sublist\<close>), case-sensitively. \<open>evidence_path\<close> is the
  f-string of line 230. The loop over the three
  files is \<open>evidence_loop\<close>, with the dictionary \<open>urls\<close> as accumulator; a file that
  declares no content type makes the \<open>in\<close> test raise \<open>TypeError\<close>.
\<close>

definition evidence_ext :: "string \<Rightarrow> string" where
  "evidence_ext ct =
     (if sublist ''video'' ct then ''mp4''
      else if sublist ''png'' ct then ''png''
      else ''jpg'')"

definition evidence_path :: "string \<Rightarrow> string \<Rightarrow> string \<Rightarrow> string \<Rightarrow> string" where
  "evidence_path c pid filename ext =
     ''evidence/'' @ c @ ''/'' @ pid @ ''/'' @ filename @ ''.'' @ ext"

fun evidence_loop ::
  "(string \<Rightarrow> string) \<Rightarrow> string \<Rightarrow> string \<Rightarrow> (UploadFile \<times> string \<times> string) list
     \<Rightarrow> (string \<times> string) list \<Rightarrow> world \<Rightarrow> (error + (string \<times> string) list) \<times> world" where
  "evidence_loop get_avatar_url c pid [] urls w = (Inr urls, w)"
| "evidence_loop get_avatar_url c pid ((file, filename, url_key) # rest) urls w =
     (case content_type file of
        None \<Rightarrow> (Inl TypeError, w)
      | Some ct \<Rightarrow>
         (let ext = evidence_ext ct;
              path = evidence_path c pid filename ext
          in case upload_avatar_image path file w of
               Inl e \<Rightarrow> (Inl e, w)
             | Inr w1 \<Rightarrow>
                 evidence_loop get_avatar_url c pid rest
                   (AList.update url_key (get_avatar_url path) urls) w1))"

record EvidenceResult =
  status :: string
  evidence_urls :: "(string \<times> string) list"

definition upload_evidence ::
  "(string \<Rightarrow> string) \<Rightarrow> string \<Rightarrow> UploadFile \<Rightarrow> UploadFile \<Rightarrow> UploadFile \<Rightarrow> world
     \<Rightarrow> (error + EvidenceResult) \<times> world" where
  "upload_evidence get_avatar_url pid soil_sample star_field flora_recording w =
     (case get_participant pid w of
        None \<Rightarrow> (Inl (HTTPException 404 ''Participant not found''), w)
      | Some p \<Rightarrow>
         (let c = participant.event_code p;
              evidence_files = [(soil_sample, ''soil_sample'', ''soil''),
                                (star_field, ''star_field'', ''stars''),
                                (flora_recording, ''flora_recording'', ''flora'')]
          in case evidence_loop get_avatar_url c pid evidence_files [] w of
               (Inl e, w1) \<Rightarrow> (Inl e, w1)
             | (Inr urls, w1) \<Rightarrow>
                 (Inr \<lparr>status = ''success'', evidence_urls = urls\<rparr>,
                  update_participant pid [Set_evidence_urls urls] w1)))"

text \<open>\<open>confirm_location\<close>, lines 245-262.\<close>

record LocationResult =
  status :: string
  x :: int
  y :: int
  location_confirmed :: bool

definition confirm_location ::
  "string \<Rightarrow> int \<Rightarrow> int \<Rightarrow> world \<Rightarrow> (error + LocationResult) \<times> world" where
  "confirm_location pid new_x new_y w =
     (case get_participant pid w of
        None \<Rightarrow> (Inl (HTTPException 404 ''Participant not found''), w)
      | Some p \<Rightarrow>
          (Inr \<lparr>status = ''success'', x = new_x, y = new_y, location_confirmed = True\<rparr>,
           update_participant pid [Set_x new_x, Set_y new_y, Set_location_confirmed True] w))"

section \<open>Sequences of lifecycle operations\<close>

text \<open>
  A request to one of the five handlers that act on an existing participant, with the
  inputs of the call; \<open>apply_op\<close> is the effect of the request on the state, whatever it
  answers, and \<open>run_ops\<close> serves a list of requests one after the other.
\<close>

datatype op =
    Upload_avatar string UploadFile UploadFile
  | Register ParticipantRegister datetime
  | Upload_evidence string UploadFile UploadFile UploadFile
  | Confirm_location string int int
  | Override string ParticipantUpdate

fun apply_op :: "(string \<Rightarrow> string) \<Rightarrow> op \<Rightarrow> world \<Rightarrow> world" where
  "apply_op g (Upload_avatar pid portrait icon) w = snd (upload_avatar g pid portrait icon w)"
| "apply_op g (Register d now) w = snd (register_participant d now w)"
| "apply_op g (Upload_evidence pid s t f) w = snd (upload_evidence g pid s t f w)"
| "apply_op g (Confirm_location pid new_x new_y) w = snd (confirm_location pid new_x new_y w)"
| "apply_op g (Override pid u) w = snd (update_participant_details pid u w)"

definition run_ops :: "(string \<Rightarrow> string) \<Rightarrow> op list \<Rightarrow> world \<Rightarrow> world" where
  "run_ops g ops w = fold (apply_op g) ops w"

fun registers :: "string \<Rightarrow> op \<Rightarrow> bool" where
  "registers pid (Register d now) = (ParticipantRegister.participant_id d = pid)"
| "registers pid other = False"

text \<open>
  What a reader of the database sees of \<open>registered_at\<close> for a participant id:
  \<open>None\<close> when there is no such participant, else the field. \<open>writes_registered_at\<close>
  tells the assignments to that field from the others.
\<close>

definition registered_at_of :: "string \<Rightarrow> world \<Rightarrow> datetime option option" where
  "registered_at_of pid w = map_option participant.registered_at (get_participant pid w)"

fun writes_registered_at :: "field_update \<Rightarrow> bool" where
  "writes_registered_at (Set_registered_at t) = True"
| "writes_registered_at other = False"

section \<open>Concurrent calls of init\_participant\<close>

text \<open>
  \<open>init_participant\<close> is a coroutine: it gives up control at each \<open>await\<close>, and
  other requests, served by the same process or by another instance of the service on
  the same database, act on the database in between. Its three awaited calls are
  \<open>get_event\<close> (line 56), \<open>check_username_exists\<close> (line 68) and
  \<open>create_participant\<close> (line 94). A call in progress is an \<open>init_call\<close>: its inputs
  and the place it has reached. \<open>init_step\<close> runs a call from one awaited database
  operation up to the next, with the code in between; \<open>interleave\<close> runs several calls
  on one state, advancing at each turn the call the schedule names.
\<close>

datatype init_pc =
    At_get_event
  | At_check_username_exists
  | At_create_participant
  | Returned "error + ParticipantInitResponse"

record init_call =
  request :: ParticipantInit
  random :: entropy
  clock :: datetime
  pc :: init_pc

definition init_step :: "int \<Rightarrow> int \<Rightarrow> init_call \<Rightarrow> world \<Rightarrow> init_call \<times> world" where
  "init_step MAP_WIDTH MAP_HEIGHT c w =
     (let d = request c in
      case pc c of
        At_get_event \<Rightarrow>
          (case get_event (ParticipantInit.event_code d) w of
             None \<Rightarrow> (c\<lparr>pc := Returned (Inl (HTTPException 404 ''Event not found''))\<rparr>, w)
           | Some ev \<Rightarrow>
               if \<not> get_active ev
               then (c\<lparr>pc := Returned (Inl (HTTPException 410 ''Event has ended''))\<rparr>, w)
               else if get_participant_count ev \<ge> get_max_participants ev
               then (c\<lparr>pc := Returned (Inl (HTTPException 409 ''Event is full''))\<rparr>, w)
               else (c\<lparr>pc := At_check_username_exists\<rparr>, w))
      | At_check_username_exists \<Rightarrow>
          if check_username_exists (ParticipantInit.event_code d) (ParticipantInit.username d) w
          then (c\<lparr>pc := Returned (Inl (HTTPException 409 ''Username already taken''))\<rparr>, w)
          else (c\<lparr>pc := At_create_participant\<rparr>, w)
      | At_create_participant \<Rightarrow>
          (let pid = token_hex (random c) in
           case randint 10 (MAP_WIDTH - 10) (draw_x (random c)) of
             Inl e \<Rightarrow> (c\<lparr>pc := Returned (Inl e)\<rparr>, w)
           | Inr sx \<Rightarrow>
              (case randint 10 (MAP_HEIGHT - 10) (draw_y (random c)) of
                 Inl e \<Rightarrow> (c\<lparr>pc := Returned (Inl e)\<rparr>, w)
               | Inr sy \<Rightarrow>
                   (c\<lparr>pc := Returned
                         (Inr \<lparr>ParticipantInitResponse.participant_id = pid,
                               username = ParticipantInit.username d,
                               event_code = ParticipantInit.event_code d,
                               starting_x = sx,
                               starting_y = sy\<rparr>)\<rparr>,
                    create_participant (new_participant d pid sx sy (clock c)) w)))
      | Returned r \<Rightarrow> (c, w))"

fun interleave ::
  "int \<Rightarrow> int \<Rightarrow> nat list \<Rightarrow> init_call list \<Rightarrow> world \<Rightarrow> init_call list \<times> world" where
  "interleave MAP_WIDTH MAP_HEIGHT [] cs w = (cs, w)"
| "interleave MAP_WIDTH MAP_HEIGHT (i # schedule) cs w =
     (if i < length cs
      then (case init_step MAP_WIDTH MAP_HEIGHT (cs ! i) w of
              (c', w') \<Rightarrow> interleave MAP_WIDTH MAP_HEIGHT schedule (cs[i := c']) w')
      else interleave MAP_WIDTH MAP_HEIGHT schedule cs w)"

definition start_init :: "ParticipantInit \<Rightarrow> entropy \<Rightarrow> datetime \<Rightarrow> init_call" where
  "start_init d rnd now = \<lparr>request = d, random = rnd, clock = now, pc = At_get_event\<rparr>"

section \<open>Example requests and states\<close>

text \<open>
  \<open>ParticipantUpdate()\<close> with every field at its default \<open>None\<close>: the empty payload.
\<close>

definition empty_payload :: ParticipantUpdate where
  "empty_payload =
     \<lparr>ParticipantUpdate.level_0_complete = None, level_1_complete = None,
      level_2_complete = None, level_3_complete = None, level_4_complete = None,
      level_5_complete = None, completion_percentage = None\<rparr>"

text \<open>
  Three events: \<open>E1\<close> is full (two of two participants), \<open>E2\<close> has spare capacity,
  \<open>E3\<close> has ended. \<open>world_0\<close> holds them and no participant. The map is 100 by 100.
\<close>

definition event_E1 :: event where
  "event_E1 = \<lparr>code = ''E1'', active = Some True, participant_count = Some 2,
                max_participants = Some 2\<rparr>"

definition event_E2 :: event where
  "event_E2 = \<lparr>code = ''E2'', active = Some True, participant_count = Some 0,
                max_participants = Some 500\<rparr>"

definition event_E3 :: event where
  "event_E3 = \<lparr>code = ''E3'', active = Some False, participant_count = Some 0,
                max_participants = Some 500\<rparr>"

definition world_0 :: world where
  "world_0 = \<lparr>events = [(''E1'', event_E1), (''E2'', event_E2), (''E3'', event_E3)],
               participants = [], journal = [], bucket = [], refused = []\<rparr>"

definition init_request :: "string \<Rightarrow> string \<Rightarrow> ParticipantInit" where
  "init_request c u = \<lparr>ParticipantInit.event_code = c, username = u, project_id = None\<rparr>"

definition dice_1 :: entropy where
  "dice_1 = \<lparr>token_hex = ''0a1b2c3d'', draw_x = 1234, draw_y = 77\<rparr>"

definition dice_2 :: entropy where
  "dice_2 = \<lparr>token_hex = ''9f8e7d6c'', draw_x = 5, draw_y = 600\<rparr>"

text \<open>\<open>world_bob\<close>: after \<open>bob\<close> has joined \<open>E2\<close> with the first dice.\<close>

definition world_bob :: world where
  "world_bob = snd (init_participant 100 100 (init_request ''E2'' ''bob'') dice_1 1000 world_0)"

text \<open>
  \<open>bob\<close> then uploads two PNG images as avatar (\<open>world_avatar\<close>) and registers at
  time 2000 (\<open>world_registered\<close>). \<open>cdn\<close> stands for \<open>get_avatar_url\<close>.
\<close>

definition cdn :: "string \<Rightarrow> string" where
  "cdn path = ''https://storage.example/'' @ path"

definition png_file :: UploadFile where
  "png_file = \<lparr>content_type = Some ''image/png'', contents = ''PNG''\<rparr>"

definition world_avatar :: world where
  "world_avatar = snd (upload_avatar cdn ''0a1b2c3d'' png_file png_file world_bob)"

definition register_bob :: ParticipantRegister where
  "register_bob = \<lparr>ParticipantRegister.participant_id = ''0a1b2c3d'',
                    suit_color = Some ''teal'', appearance = None\<rparr>"

definition world_registered :: world where
  "world_registered = snd (register_participant register_bob 2000 world_avatar)"

text \<open>The record of \<open>bob\<close> as created, and with the avatar URLs.\<close>

definition bob_0 :: participant where
  "bob_0 = new_participant (init_request ''E2'' ''bob'') ''0a1b2c3d'' 29 87 1000"

definition bob_1 :: participant where
  "bob_1 = bob_0\<lparr>participant.portrait_url := Some (cdn ''avatars/E2/0a1b2c3d/portrait.png''),
                  participant.icon_url := Some (cdn ''avatars/E2/0a1b2c3d/icon.png'')\<rparr>"

text \<open>Two more uploaded files, a JPEG image and an MP4 video.\<close>

definition jpeg_file :: UploadFile where
  "jpeg_file = \<lparr>content_type = Some ''image/jpeg'', contents = ''JFIF''\<rparr>"

definition mp4_file :: UploadFile where
  "mp4_file = \<lparr>content_type = Some ''video/mp4'', contents = ''ftyp''\<rparr>"

text \<open>
  The record of \<open>bob\<close> once registered, and a list of later requests none of which is
  a registration of \<open>bob\<close>.
\<close>

definition bob_2 :: participant where
  "bob_2 = bob_1\<lparr>participant.registered_at := Some 2000, participant.active := True,
                  participant.suit_color := Some ''teal''\<rparr>"

definition later_ops :: "op list" where
  "later_ops =
     [Override ''0a1b2c3d'' (empty_payload\<lparr>ParticipantUpdate.level_2_complete := Some True\<rparr>),
      Confirm_location ''0a1b2c3d'' 40 60,
      Upload_avatar ''0a1b2c3d'' png_file png_file,
      Upload_evidence ''0a1b2c3d'' png_file png_file png_file,
      Register \<lparr>ParticipantRegister.participant_id = ''9f8e7d6c'', suit_color = None,
                 appearance = None\<rparr> 2500]"

text \<open>
  Two calls of \<open>init_participant\<close> for the same event and username, received at the
  same time by two workers.
\<close>

definition call_A :: init_call where
  "call_A = start_init (init_request ''E2'' ''bob'') dice_1 1000"

definition call_B :: init_call where
  "call_B = start_init (init_request ''E2'' ''bob'') dice_2 1001"

section \<open>Properties of the biome mapping\<close>

text \<open>
  Claim C1. For every integer pair, \<open>get_biome\<close> is a function of its arguments and
  its four labels partition the plane at the fixed midpoint 50: the label is CRYO exactly
  when \<open>x < 50\<close> and \<open>y \<ge> 50\<close>, VOLCANIC exactly when \<open>x \<ge> 50\<close> and \<open>y \<ge> 50\<close>,
  BIOLUMINESCENT exactly when \<open>x < 50\<close> and \<open>y < 50\<close>, FOSSILIZED exactly when
  \<open>x \<ge> 50\<close> and \<open>y < 50\<close> (so no pair has two labels and none has no label). The
  quadrant representatives (10, 90), (90, 90), (10, 10) and (90, 10) get four pairwise
  distinct labels. The statement holds for all integers, hence within any map bounds.
\<close>

theorem get_biome_partition:
  fixes x y :: int
  shows
  "(get_biome x y = ''CRYO'') = (x < 50 \<and> y \<ge> 50)
   \<and> (get_biome x y = ''VOLCANIC'') = (x \<ge> 50 \<and> y \<ge> 50)
   \<and> (get_biome x y = ''BIOLUMINESCENT'') = (x < 50 \<and> y < 50)
   \<and> (get_biome x y = ''FOSSILIZED'') = (x \<ge> 50 \<and> y < 50)
   \<and> distinct [get_biome 10 90, get_biome 90 90, get_biome 10 10, get_biome 90 10]"
  by (auto simp: get_biome_def)

text \<open>
  Claim C10. \<open>get_biome\<close> is total over all pairs of integers, negative and beyond
  the map size included: its value is always one of the four labels CRYO, VOLCANIC,
  BIOLUMINESCENT, FOSSILIZED. The model has no error value because the source has no
  raising branch: the final \<open>else\<close> takes every pair the first three tests reject.
\<close>

theorem get_biome_total:
  fixes x y :: int
  shows "get_biome x y \<in> {''CRYO'', ''VOLCANIC'', ''BIOLUMINESCENT'', ''FOSSILIZED''}"
  by (simp add: get_biome_def)

section \<open>Facts about the collaborators\<close>

lemma get_participant_update:
  "get_participant q (update_participant pid us w) =
     (if q = pid then map_option (merge_fields us) (get_participant pid w)
      else get_participant q w)"
  by (simp add: get_participant_def update_participant_def map_of_map_entry
        split: option.splits)

lemma update_participant_frame:
  "events (update_participant pid us w) = events w"
  "bucket (update_participant pid us w) = bucket w"
  "refused (update_participant pid us w) = refused w"
  "journal (update_participant pid us w) = journal w @ [Updated pid us]"
  by (simp_all add: update_participant_def)

lemma get_participant_create:
  "get_participant q (create_participant p w) =
     (if q = participant.participant_id p then Some p else get_participant q w)"
  by (simp add: get_participant_def create_participant_def update_conv)

lemma new_participant_sel [simp]:
  "participant.participant_id (new_participant d pid sx sy now) = pid"
  "participant.event_code (new_participant d pid sx sy now) = ParticipantInit.event_code d"
  "participant.username (new_participant d pid sx sy now) = ParticipantInit.username d"
  by (simp_all add: new_participant_def)

lemma randint_range: "randint a b r = Inr n \<Longrightarrow> a \<le> n \<and> n \<le> b"
proof -
  assume h: "randint a b r = Inr n"
  then have ab: "a \<le> b" and n: "n = a + int r mod (b - a + 1)"
    by (auto simp: randint_def split: if_splits)
  from ab have pos: "0 < b - a + 1" by simp
  have "0 \<le> int r mod (b - a + 1)" "int r mod (b - a + 1) < b - a + 1"
    using pos_mod_sign [OF pos] pos_mod_bound [OF pos] by blast+
  with n show ?thesis by linarith
qed

section \<open>Properties of init\_participant\<close>

text \<open>
  Claim C3. \<open>init_participant\<close> applies its gates in order. When the event does not
  exist it raises 404, whatever else holds. When the event exists and is not active it
  raises 410. When it exists, is active and \<open>participant_count < max_participants\<close>
  fails (the two being equal included) it raises 409 "Event is full", whether or not
  the username is free. When the first three gates pass and the username is taken it
  raises 409 "Username already taken". Every call that raises leaves the state as it
  was: no participant is created and nothing is written.
\<close>

theorem init_participant_gates:
  "(get_event (ParticipantInit.event_code d) w = None \<longrightarrow>
      init_participant W H d rnd now w = (Inl (HTTPException 404 ''Event not found''), w))
   \<and> (\<forall>ev. get_event (ParticipantInit.event_code d) w = Some ev \<and> \<not> get_active ev \<longrightarrow>
      init_participant W H d rnd now w = (Inl (HTTPException 410 ''Event has ended''), w))
   \<and> (\<forall>ev. get_event (ParticipantInit.event_code d) w = Some ev \<and> get_active ev
         \<and> \<not> get_participant_count ev < get_max_participants ev \<longrightarrow>
      init_participant W H d rnd now w = (Inl (HTTPException 409 ''Event is full''), w))
   \<and> (\<forall>ev. get_event (ParticipantInit.event_code d) w = Some ev \<and> get_active ev
         \<and> get_participant_count ev < get_max_participants ev
         \<and> check_username_exists (ParticipantInit.event_code d) (ParticipantInit.username d) w \<longrightarrow>
      init_participant W H d rnd now w = (Inl (HTTPException 409 ''Username already taken''), w))
   \<and> (\<forall>e. fst (init_participant W H d rnd now w) = Inl e \<longrightarrow>
      snd (init_participant W H d rnd now w) = w)"
  by (auto simp: init_participant_def Let_def split: option.splits sum.splits)

text \<open>
  Claim C8. A call of \<open>init_participant\<close> that succeeds answers with the new
  participant's id (the token drawn for the call), the username and event code of the
  request, and the starting coordinates; whatever the random source draws, the
  coordinates satisfy \<open>10 \<le> x \<le> MAP_WIDTH - 10\<close> and \<open>10 \<le> y \<le> MAP_HEIGHT - 10\<close>,
  and they are the coordinates of the record stored under that id.
\<close>

theorem init_participant_response:
  assumes "init_participant W H d rnd now w = (Inr r, w')"
  shows "ParticipantInitResponse.participant_id r = token_hex rnd
       \<and> ParticipantInitResponse.username r = ParticipantInit.username d
       \<and> ParticipantInitResponse.event_code r = ParticipantInit.event_code d
       \<and> 10 \<le> starting_x r \<and> starting_x r \<le> W - 10
       \<and> 10 \<le> starting_y r \<and> starting_y r \<le> H - 10
       \<and> get_participant (token_hex rnd) w'
           = Some (new_participant d (token_hex rnd) (starting_x r) (starting_y r) now)"
  using assms
  by (auto simp: init_participant_def Let_def get_participant_create
        split: option.splits sum.splits if_splits dest: randint_range)

section \<open>Properties of register\_participant\<close>

text \<open>
  Claim C4. For an existing participant, \<open>register_participant\<close> raises 400 whenever
  \<open>portrait_url\<close> or \<open>icon_url\<close> is null, whatever the other fields and the request
  hold, and leaves the state as it was. When both URLs are present (non-empty strings)
  it succeeds: the stored record becomes the old one with \<open>registered_at\<close> set to the
  current time, \<open>active\<close> set to true, and \<open>suit_color\<close> and \<open>appearance\<close> replaced
  only where the request supplies one; the answer is that record and no other
  participant changes.
\<close>

theorem register_gating:
  assumes "get_participant (ParticipantRegister.participant_id d) w = Some p"
  shows "(participant.portrait_url p = None \<or> participant.icon_url p = None \<longrightarrow>
            register_participant d now w
              = (Inl (HTTPException 400 ''Avatar must be uploaded before registration''), w))
       \<and> (truthy (participant.portrait_url p) \<and> truthy (participant.icon_url p) \<longrightarrow>
            (let p' = p\<lparr>participant.registered_at := Some now,
                        participant.active := True,
                        participant.suit_color :=
                          (if truthy (ParticipantRegister.suit_color d)
                           then ParticipantRegister.suit_color d else participant.suit_color p),
                        participant.appearance :=
                          (if truthy (ParticipantRegister.appearance d)
                           then ParticipantRegister.appearance d else participant.appearance p)\<rparr>;
                 w' = snd (register_participant d now w)
             in fst (register_participant d now w) = Inr (response_of p')
              \<and> get_participant (ParticipantRegister.participant_id d) w' = Some p'
              \<and> (\<forall>q. q \<noteq> ParticipantRegister.participant_id d \<longrightarrow>
                    get_participant q w' = get_participant q w)))"
  using assms
  by (auto simp: register_participant_def truthy_def get_participant_update
        merge_fields_def Let_def split: option.splits)

section \<open>Properties of update\_participant\_details\<close>

text \<open>
  Claim C6. For an existing participant, an override whose payload holds only
  \<open>level_2_complete = true\<close> (every other field null) stores the old record with
  \<open>level_2_complete\<close> set and every other field as it was, answers with that record,
  and leaves every other participant, the events and the stored objects untouched.
\<close>

theorem override_level_2_only:
  assumes "get_participant pid w = Some p"
      and "u = empty_payload\<lparr>ParticipantUpdate.level_2_complete := Some True\<rparr>"
      and "update_participant_details pid u w = (r, w')"
  shows "r = Inr (response_of (p\<lparr>participant.level_2_complete := Some True\<rparr>))
       \<and> get_participant pid w' = Some (p\<lparr>participant.level_2_complete := Some True\<rparr>)
       \<and> (\<forall>q. q \<noteq> pid \<longrightarrow> get_participant q w' = get_participant q w)
       \<and> events w' = events w \<and> bucket w' = bucket w"
  using assms
  by (auto simp: update_participant_details_def dict_ParticipantUpdate_def empty_payload_def
        List.map_filter_simps get_participant_update update_participant_frame
        merge_fields_def Let_def)

text \<open>
  Claim C7. For an existing participant, an override with the empty payload (all
  fields null) is the identity: it answers with the current record and returns the
  state unchanged; in particular the journal of writes gets no entry.
\<close>

theorem override_empty_is_identity:
  assumes "get_participant pid w = Some p"
  shows "update_participant_details pid empty_payload w = (Inr (response_of p), w)
       \<and> journal (snd (update_participant_details pid empty_payload w)) = journal w"
  using assms
  by (simp add: update_participant_details_def dict_ParticipantUpdate_def empty_payload_def
        List.map_filter_simps)

section \<open>Who writes registered\_at\<close>

lemma set_field_registered_at:
  "\<not> writes_registered_at u \<Longrightarrow>
     participant.registered_at (set_field u p) = participant.registered_at p"
  by (cases u) simp_all

lemma merge_fields_registered_at:
  "list_all (\<lambda>u. \<not> writes_registered_at u) us \<Longrightarrow>
     participant.registered_at (merge_fields us p) = participant.registered_at p"
  unfolding merge_fields_def
  by (induction us arbitrary: p) (simp_all add: set_field_registered_at)

lemma update_participant_registered_at:
  "pid' \<noteq> pid \<or> list_all (\<lambda>u. \<not> writes_registered_at u) us \<Longrightarrow>
     registered_at_of pid (update_participant pid' us w) = registered_at_of pid w"
  by (cases "get_participant pid' w")
     (auto simp: registered_at_of_def get_participant_update merge_fields_registered_at)

lemma upload_avatar_image_participants:
  "upload_avatar_image path file w = Inr w' \<Longrightarrow> get_participant q w' = get_participant q w"
  by (auto simp: upload_avatar_image_def get_participant_def split: if_splits)

lemma upload_avatar_image_registered_at:
  "upload_avatar_image path file w = Inr w' \<Longrightarrow> registered_at_of q w' = registered_at_of q w"
  by (simp add: registered_at_of_def upload_avatar_image_participants)

lemma evidence_loop_registered_at:
  "registered_at_of q (snd (evidence_loop g c pid files urls w)) = registered_at_of q w"
proof (induction files arbitrary: urls w)
  case Nil
  show ?case by simp
next
  case (Cons f files)
  obtain fl filename url_key where f: "f = (fl, filename, url_key)"
    by (cases f) auto
  show ?case
    by (auto simp: f Let_def Cons.IH upload_avatar_image_registered_at
          split: option.splits sum.splits)
qed

lemma upload_avatar_registered_at:
  "registered_at_of q (snd (upload_avatar g pid portrait icon w)) = registered_at_of q w"
  by (auto simp: upload_avatar_def Let_def update_participant_registered_at
        upload_avatar_image_registered_at split: option.splits sum.splits)

lemma upload_evidence_registered_at:
  "registered_at_of q (snd (upload_evidence g pid s t f w)) = registered_at_of q w"
proof (cases "get_participant pid w")
  case None
  then show ?thesis by (simp add: upload_evidence_def)
next
  case (Some p)
  let ?files = "[(s, ''soil_sample'', ''soil''), (t, ''star_field'', ''stars''),
                 (f, ''flora_recording'', ''flora'')]"
  obtain r w1 where l: "evidence_loop g (participant.event_code p) pid ?files [] w = (r, w1)"
    by (cases "evidence_loop g (participant.event_code p) pid ?files [] w") auto
  have w1: "registered_at_of q w1 = registered_at_of q w"
    using evidence_loop_registered_at [of q g "participant.event_code p" pid ?files "[]" w] l
    by simp
  show ?thesis
    using Some l w1
    by (cases r) (simp_all add: upload_evidence_def Let_def update_participant_registered_at)
qed

lemma confirm_location_registered_at:
  "registered_at_of q (snd (confirm_location pid nx ny w)) = registered_at_of q w"
  by (auto simp: confirm_location_def update_participant_registered_at split: option.splits)

lemma dict_no_registered_at:
  "list_all (\<lambda>u. \<not> writes_registered_at u) (List.map_filter id (dict_ParticipantUpdate u))"
  by (simp add: dict_ParticipantUpdate_def List.map_filter_simps split: option.splits)

lemma update_participant_details_registered_at:
  "registered_at_of q (snd (update_participant_details pid u w)) = registered_at_of q w"
  by (auto simp: update_participant_details_def Let_def update_participant_registered_at
        dict_no_registered_at split: option.splits)

lemma register_other_registered_at:
  "ParticipantRegister.participant_id d \<noteq> q \<Longrightarrow>
     registered_at_of q (snd (register_participant d now w)) = registered_at_of q w"
  by (auto simp: register_participant_def Let_def update_participant_registered_at
        split: option.splits)

lemma apply_op_registered_at:
  "\<not> registers pid op \<Longrightarrow> registered_at_of pid (apply_op g op w) = registered_at_of pid w"
  by (cases op)
     (simp_all add: upload_avatar_registered_at upload_evidence_registered_at
        confirm_location_registered_at update_participant_details_registered_at
        register_other_registered_at)

lemma run_ops_registered_at:
  "list_all (\<lambda>op. \<not> registers pid op) ops \<Longrightarrow>
     registered_at_of pid (run_ops g ops w) = registered_at_of pid w"
  unfolding run_ops_def
  by (induction ops arbitrary: w) (simp_all add: apply_op_registered_at)

lemma register_sets_registered_at:
  "fst (register_participant d now w) = Inr r \<Longrightarrow>
     registered_at_of (ParticipantRegister.participant_id d) (snd (register_participant d now w))
       = Some (Some now)"
  by (auto simp: register_participant_def Let_def registered_at_of_def get_participant_update
        merge_fields_def split: option.splits if_splits)

text \<open>
  Claim C5, amended. The specification says \<open>registered_at\<close> is set exactly once and
  that no later operation, a second successful registration included, changes it. The
  handler has no such guard: every successful call of \<open>register_participant\<close> sets
  \<open>registered_at\<close> of its participant to the time of that call. What holds is that
  nothing else writes the field: whatever list of avatar uploads, evidence uploads,
  location confirmations, overrides and registrations of other participants is served,
  \<open>registered_at\<close> of the participant is afterwards what it was before.
\<close>

theorem registered_at_changed_only_by_register:
  "(list_all (\<lambda>op. \<not> registers pid op) ops \<longrightarrow>
      registered_at_of pid (run_ops g ops w) = registered_at_of pid w)
   \<and> (\<forall>r. fst (register_participant d now w') = Inr r \<longrightarrow>
        registered_at_of (ParticipantRegister.participant_id d)
          (snd (register_participant d now w')) = Some (Some now))"
  using run_ops_registered_at register_sets_registered_at by blast


section \<open>Properties of upload\_evidence\<close>

lemma evidence_path_neq:
  "evidence_path c pid ''soil_sample'' a \<noteq> evidence_path c pid ''star_field'' b"
  "evidence_path c pid ''soil_sample'' a \<noteq> evidence_path c pid ''flora_recording'' b"
  "evidence_path c pid ''star_field'' a \<noteq> evidence_path c pid ''flora_recording'' b"
  "evidence_path c pid ''star_field'' a \<noteq> evidence_path c pid ''soil_sample'' b"
  "evidence_path c pid ''flora_recording'' a \<noteq> evidence_path c pid ''soil_sample'' b"
  "evidence_path c pid ''flora_recording'' a \<noteq> evidence_path c pid ''star_field'' b"
  by (simp_all add: evidence_path_def)

lemma evidence_loop_Cons_Inr:
  assumes "evidence_loop g c pid ((fl, filename, url_key) # rest) urls w = (Inr us, w')"
      and "content_type fl = Some ct"
  shows "evidence_loop g c pid rest
           (AList.update url_key (g (evidence_path c pid filename (evidence_ext ct))) urls)
           (w\<lparr>bucket := AList.update (evidence_path c pid filename (evidence_ext ct)) fl
                          (bucket w)\<rparr>)
         = (Inr us, w')"
  using assms
  by (simp add: Let_def upload_avatar_image_def split: if_splits)

lemma evidence_loop_three:
  assumes "evidence_loop g c pid [(s, n1, ''soil''), (t, n2, ''stars''), (f, n3, ''flora'')] [] w
             = (Inr us, w')"
      and "content_type s = Some cs" and "content_type t = Some ct"
      and "content_type f = Some cf"
  shows "us = [(''soil'', g (evidence_path c pid n1 (evidence_ext cs))),
               (''stars'', g (evidence_path c pid n2 (evidence_ext ct))),
               (''flora'', g (evidence_path c pid n3 (evidence_ext cf)))]"
    and "w' = w\<lparr>bucket :=
                  AList.update (evidence_path c pid n3 (evidence_ext cf)) f
                    (AList.update (evidence_path c pid n2 (evidence_ext ct)) t
                      (AList.update (evidence_path c pid n1 (evidence_ext cs)) s (bucket w)))\<rparr>"
proof -
  note a = evidence_loop_Cons_Inr [OF assms(1) assms(2)]
  note b = evidence_loop_Cons_Inr [OF a assms(3)]
  note c = evidence_loop_Cons_Inr [OF b assms(4)]
  from c show "us = [(''soil'', g (evidence_path c pid n1 (evidence_ext cs))),
               (''stars'', g (evidence_path c pid n2 (evidence_ext ct))),
               (''flora'', g (evidence_path c pid n3 (evidence_ext cf)))]"
    by simp
  from c show "w' = w\<lparr>bucket :=
                  AList.update (evidence_path c pid n3 (evidence_ext cf)) f
                    (AList.update (evidence_path c pid n2 (evidence_ext ct)) t
                      (AList.update (evidence_path c pid n1 (evidence_ext cs)) s (bucket w)))\<rparr>"
    by simp
qed

text \<open>
  Claim C9, amended. For each of the three evidence files \<open>upload_evidence\<close> takes
  the extension from the declared content type by substring tests in a fixed order: a
  content type that contains \<open>video\<close> gives \<open>mp4\<close>; otherwise one that contains
  \<open>png\<close> gives \<open>png\<close>, \<open>image/png\<close> in particular; one that contains neither
  gives \<open>jpg\<close>. When the call succeeds, each file is stored under the path
  \<open>evidence/<event>/<participant>/<name>.<extension>\<close> with that extension, the
  answer maps \<open>soil\<close>, \<open>stars\<close> and \<open>flora\<close> to the URLs of those paths, and that
  mapping is the participant's \<open>evidence_urls\<close> afterwards.
\<close>

theorem upload_evidence_extensions:
  assumes "get_participant pid w = Some p"
      and "content_type soil = Some cs"
      and "content_type star = Some ct"
      and "content_type flora = Some cf"
      and "upload_evidence g pid soil star flora w = (Inr r, w')"
  shows "EvidenceResult.evidence_urls r =
           [(''soil'', g (evidence_path (participant.event_code p) pid ''soil_sample''
                            (evidence_ext cs))),
            (''stars'', g (evidence_path (participant.event_code p) pid ''star_field''
                            (evidence_ext ct))),
            (''flora'', g (evidence_path (participant.event_code p) pid ''flora_recording''
                            (evidence_ext cf)))]
       \<and> map_option participant.evidence_urls (get_participant pid w')
           = Some (Some (EvidenceResult.evidence_urls r))
       \<and> map_of (bucket w')
            (evidence_path (participant.event_code p) pid ''soil_sample'' (evidence_ext cs))
           = Some soil
       \<and> map_of (bucket w')
            (evidence_path (participant.event_code p) pid ''star_field'' (evidence_ext ct))
           = Some star
       \<and> map_of (bucket w')
            (evidence_path (participant.event_code p) pid ''flora_recording'' (evidence_ext cf))
           = Some flora
       \<and> (sublist ''video'' c \<longrightarrow> evidence_ext c = ''mp4'')
       \<and> (\<not> sublist ''video'' c \<and> sublist ''png'' c \<longrightarrow> evidence_ext c = ''png'')
       \<and> (\<not> sublist ''video'' c \<and> \<not> sublist ''png'' c \<longrightarrow> evidence_ext c = ''jpg'')
       \<and> evidence_ext ''image/png'' = ''png''"
proof -
  let ?c = "participant.event_code p"
  let ?files = "[(soil, ''soil_sample'', ''soil''), (star, ''star_field'', ''stars''),
                 (flora, ''flora_recording'', ''flora'')]"
  obtain res w1 where l: "evidence_loop g ?c pid ?files [] w = (res, w1)"
    by (cases "evidence_loop g ?c pid ?files [] w") auto
  from assms(1,5) l obtain us where res: "res = Inr us"
    and r: "r = \<lparr>EvidenceResult.status = ''success'', evidence_urls = us\<rparr>"
    and w': "w' = update_participant pid [Set_evidence_urls us] w1"
    by (cases res) (auto simp: upload_evidence_def Let_def)
  note three = evidence_loop_three [OF l [unfolded res] assms(2,3,4)]
  have urls: "EvidenceResult.evidence_urls r =
           [(''soil'', g (evidence_path ?c pid ''soil_sample'' (evidence_ext cs))),
            (''stars'', g (evidence_path ?c pid ''star_field'' (evidence_ext ct))),
            (''flora'', g (evidence_path ?c pid ''flora_recording'' (evidence_ext cf)))]"
    using three(1) r by simp
  have p1: "get_participant pid w1 = Some p"
    using three(2) assms(1) by (simp add: get_participant_def)
  have stored: "map_option participant.evidence_urls (get_participant pid w')
           = Some (Some (EvidenceResult.evidence_urls r))"
    by (simp add: w' r get_participant_update p1 merge_fields_def)
  have b: "bucket w' = bucket w1"
    by (simp add: w' update_participant_frame)
  have b1: "map_of (bucket w') (evidence_path ?c pid ''soil_sample'' (evidence_ext cs)) = Some soil"
    by (simp add: b three(2) update_conv evidence_path_neq)
  have b2: "map_of (bucket w') (evidence_path ?c pid ''star_field'' (evidence_ext ct)) = Some star"
    by (simp add: b three(2) update_conv evidence_path_neq)
  have b3: "map_of (bucket w') (evidence_path ?c pid ''flora_recording'' (evidence_ext cf)) = Some flora"
    by (simp add: b three(2) update_conv evidence_path_neq)
  have e: "(sublist ''video'' c \<longrightarrow> evidence_ext c = ''mp4'')
       \<and> (\<not> sublist ''video'' c \<and> sublist ''png'' c \<longrightarrow> evidence_ext c = ''png'')
       \<and> (\<not> sublist ''video'' c \<and> \<not> sublist ''png'' c \<longrightarrow> evidence_ext c = ''jpg'')
       \<and> evidence_ext ''image/png'' = ''png''"
    by (simp add: evidence_ext_def sublist_code prefix_code)
  from urls stored b1 b2 b3 e show ?thesis by blast
qed

text \<open>
  The specification's third case, "any other content type yields jpg", fails on the
  handler: \<open>image/apng\<close> is not \<open>image/png\<close> and does not indicate a video, yet it
  contains \<open>png\<close> and gets the extension \<open>png\<close>.
\<close>

theorem evidence_ext_apng:
  "\<not> sublist ''video'' ''image/apng'' \<and> ''image/apng'' \<noteq> ''image/png''
   \<and> evidence_ext ''image/apng'' = ''png'' \<and> evidence_ext ''image/apng'' \<noteq> ''jpg''"
  by (simp add: evidence_ext_def sublist_code prefix_code)


section \<open>The properties on the example states\<close>

text \<open>
  Each statement below instantiates one of the theorems above on the example states and
  discharges its hypotheses there by evaluation.
\<close>

lemmas ex_defs = world_0_def event_E1_def event_E2_def event_E3_def init_request_def
  dice_1_def dice_2_def get_event_def get_active_def get_participant_count_def
  get_max_participants_def check_username_exists_def

lemma world_bob_eq:
  "world_bob =
     \<lparr>events = [(''E1'', event_E1),
                (''E2'', event_E2\<lparr>participant_count := Some 1\<rparr>),
                (''E3'', event_E3)],
      participants = [(''0a1b2c3d'',
         new_participant (init_request ''E2'' ''bob'') ''0a1b2c3d'' 29 87 1000)],
      journal = [Created ''0a1b2c3d''], bucket = [], refused = []\<rparr>"
  by (simp add: world_bob_def init_participant_def ex_defs randint_def create_participant_def
      count_up_def Let_def)

theorem init_participant_gates_witness:
  "init_participant 100 100 (init_request ''E9'' ''alice'') dice_2 2000 world_0
     = (Inl (HTTPException 404 ''Event not found''), world_0)
   \<and> init_participant 100 100 (init_request ''E3'' ''alice'') dice_2 2000 world_0
     = (Inl (HTTPException 410 ''Event has ended''), world_0)
   \<and> init_participant 100 100 (init_request ''E1'' ''alice'') dice_2 2000 world_0
     = (Inl (HTTPException 409 ''Event is full''), world_0)
   \<and> init_participant 100 100 (init_request ''E2'' ''bob'') dice_2 2000 world_bob
     = (Inl (HTTPException 409 ''Username already taken''), world_bob)"
proof -
  have a: "get_event (ParticipantInit.event_code (init_request ''E9'' ''alice'')) world_0 = None"
    by (simp add: ex_defs)
  have b: "get_event (ParticipantInit.event_code (init_request ''E3'' ''alice'')) world_0 = Some event_E3
           \<and> \<not> get_active event_E3"
    by (simp add: ex_defs)
  have c: "get_event (ParticipantInit.event_code (init_request ''E1'' ''alice'')) world_0 = Some event_E1
           \<and> get_active event_E1 \<and> \<not> get_participant_count event_E1 < get_max_participants event_E1"
    by (simp add: ex_defs)
  have d: "get_event (ParticipantInit.event_code (init_request ''E2'' ''bob'')) world_bob
             = Some (event_E2\<lparr>participant_count := Some 1\<rparr>)
           \<and> get_active (event_E2\<lparr>participant_count := Some 1\<rparr>)
           \<and> get_participant_count (event_E2\<lparr>participant_count := Some 1\<rparr>)
               < get_max_participants (event_E2\<lparr>participant_count := Some 1\<rparr>)
           \<and> check_username_exists (ParticipantInit.event_code (init_request ''E2'' ''bob''))
               (ParticipantInit.username (init_request ''E2'' ''bob'')) world_bob"
    by (simp add: world_bob_eq) (simp add: ex_defs)
  note g = init_participant_gates [of _ _ 100 100 dice_2 2000]
  from g [of "init_request ''E9'' ''alice''" world_0] a
  have 1: "init_participant 100 100 (init_request ''E9'' ''alice'') dice_2 2000 world_0
     = (Inl (HTTPException 404 ''Event not found''), world_0)" by blast
  from g [of "init_request ''E3'' ''alice''" world_0] b
  have 2: "init_participant 100 100 (init_request ''E3'' ''alice'') dice_2 2000 world_0
     = (Inl (HTTPException 410 ''Event has ended''), world_0)" by blast
  from g [of "init_request ''E1'' ''alice''" world_0] c
  have 3: "init_participant 100 100 (init_request ''E1'' ''alice'') dice_2 2000 world_0
     = (Inl (HTTPException 409 ''Event is full''), world_0)" by blast
  from g [of "init_request ''E2'' ''bob''" world_bob] d
  have 4: "init_participant 100 100 (init_request ''E2'' ''bob'') dice_2 2000 world_bob
     = (Inl (HTTPException 409 ''Username already taken''), world_bob)" by blast
  from 1 2 3 4 show ?thesis by blast
qed

lemma init_bob:
  "init_participant 100 100 (init_request ''E2'' ''bob'') dice_1 1000 world_0
     = (Inr \<lparr>ParticipantInitResponse.participant_id = ''0a1b2c3d'', username = ''bob'',
             event_code = ''E2'', starting_x = 29, starting_y = 87\<rparr>, world_bob)"
  by (simp add: world_bob_eq)
     (simp add: init_participant_def ex_defs randint_def create_participant_def
      count_up_def Let_def)

theorem init_participant_response_witness:
  "init_participant 100 100 (init_request ''E2'' ''bob'') dice_1 1000 world_0
     = (Inr \<lparr>ParticipantInitResponse.participant_id = ''0a1b2c3d'', username = ''bob'',
             event_code = ''E2'', starting_x = 29, starting_y = 87\<rparr>, world_bob)
   \<and> (10::int) \<le> 29 \<and> (29::int) \<le> 100 - 10 \<and> (10::int) \<le> 87 \<and> (87::int) \<le> 100 - 10
   \<and> get_participant ''0a1b2c3d'' world_bob
       = Some (new_participant (init_request ''E2'' ''bob'') ''0a1b2c3d'' 29 87 1000)"
  using init_participant_response [OF init_bob] init_bob
  by (simp add: dice_1_def)

lemma get_bob_0: "get_participant ''0a1b2c3d'' world_bob = Some bob_0"
  by (simp add: world_bob_eq get_participant_def bob_0_def)

lemma get_bob_1: "get_participant ''0a1b2c3d'' world_avatar = Some bob_1"
  by (simp add: world_avatar_def upload_avatar_def get_bob_0 png_file_def Let_def
        upload_avatar_image_def world_bob_eq get_participant_update merge_fields_def
        bob_1_def get_participant_def bob_0_def new_participant_def init_request_def
        update_participant_def)

theorem register_gating_witness:
  "register_participant register_bob 2000 world_bob
     = (Inl (HTTPException 400 ''Avatar must be uploaded before registration''), world_bob)
   \<and> fst (register_participant register_bob 2000 world_avatar)
     = Inr (response_of (bob_1\<lparr>participant.registered_at := Some 2000,
                                participant.active := True,
                                participant.suit_color := Some ''teal''\<rparr>))
   \<and> get_participant ''0a1b2c3d'' world_registered
     = Some (bob_1\<lparr>participant.registered_at := Some 2000,
                     participant.active := True,
                     participant.suit_color := Some ''teal''\<rparr>)"
proof -
  have a: "get_participant (ParticipantRegister.participant_id register_bob) world_bob = Some bob_0"
    by (simp add: register_bob_def get_bob_0)
  have b: "get_participant (ParticipantRegister.participant_id register_bob) world_avatar = Some bob_1"
    by (simp add: register_bob_def get_bob_1)
  have a0: "participant.portrait_url bob_0 = None"
    by (simp add: bob_0_def new_participant_def)
  have b0: "truthy (participant.portrait_url bob_1) \<and> truthy (participant.icon_url bob_1)"
    by (simp add: bob_1_def truthy_def cdn_def)
  have c: "truthy (ParticipantRegister.suit_color register_bob)
         \<and> \<not> truthy (ParticipantRegister.appearance register_bob)
         \<and> ParticipantRegister.suit_color register_bob = Some ''teal''
         \<and> ParticipantRegister.participant_id register_bob = ''0a1b2c3d''"
    by (simp add: register_bob_def truthy_def)
  from register_gating [OF a, of 2000] a0 have 1:
    "register_participant register_bob 2000 world_bob
       = (Inl (HTTPException 400 ''Avatar must be uploaded before registration''), world_bob)"
    by blast
  from register_gating [OF b, of 2000] b0 c show ?thesis
    by (simp add: 1 Let_def world_registered_def truthy_def)
qed

theorem override_level_2_only_witness:
  "update_participant_details ''0a1b2c3d''
      (empty_payload\<lparr>ParticipantUpdate.level_2_complete := Some True\<rparr>) world_bob
     = (Inr (response_of (bob_0\<lparr>participant.level_2_complete := Some True\<rparr>)),
        update_participant ''0a1b2c3d'' [Set_level_2_complete True] world_bob)
   \<and> get_participant ''0a1b2c3d''
        (update_participant ''0a1b2c3d'' [Set_level_2_complete True] world_bob)
     = Some (bob_0\<lparr>participant.level_2_complete := Some True\<rparr>)"
proof -
  have e: "update_participant_details ''0a1b2c3d''
      (empty_payload\<lparr>ParticipantUpdate.level_2_complete := Some True\<rparr>) world_bob
     = (fst (update_participant_details ''0a1b2c3d''
          (empty_payload\<lparr>ParticipantUpdate.level_2_complete := Some True\<rparr>) world_bob),
        update_participant ''0a1b2c3d'' [Set_level_2_complete True] world_bob)"
    by (simp add: update_participant_details_def get_bob_0 dict_ParticipantUpdate_def
          empty_payload_def List.map_filter_simps Let_def split: option.splits)
  from override_level_2_only [OF get_bob_0 refl e] e show ?thesis
    by simp
qed

theorem override_empty_is_identity_witness:
  "update_participant_details ''0a1b2c3d'' empty_payload world_bob
     = (Inr (response_of bob_0), world_bob)
   \<and> journal (snd (update_participant_details ''0a1b2c3d'' empty_payload world_bob))
     = [Created ''0a1b2c3d'']"
  using override_empty_is_identity [OF get_bob_0]
  by (simp add: world_bob_eq)

lemma world_registered_eq:
  "world_registered
     = update_participant ''0a1b2c3d''
         [Set_registered_at 2000, Set_active True, Set_suit_color ''teal''] world_avatar"
  by (simp add: world_registered_def register_participant_def register_bob_def get_bob_1
        truthy_def bob_1_def cdn_def Let_def get_participant_update)

lemma get_bob_2: "get_participant ''0a1b2c3d'' world_registered = Some bob_2"
  by (simp add: world_registered_eq get_participant_update get_bob_1 merge_fields_def bob_2_def)

lemma register_bob_again:
  "fst (register_participant register_bob now world_registered)
     = Inr (response_of (bob_2\<lparr>participant.registered_at := Some now\<rparr>))"
  by (simp add: register_participant_def register_bob_def get_bob_2 truthy_def bob_2_def
        bob_1_def cdn_def Let_def get_participant_update merge_fields_def response_of_def)

lemma register_bob_first:
  "fst (register_participant register_bob 2000 world_avatar) = Inr (response_of bob_2)"
  by (simp add: register_participant_def register_bob_def get_bob_1 truthy_def bob_2_def
        bob_1_def cdn_def Let_def get_participant_update merge_fields_def response_of_def)

text \<open>
  The statement that \<open>registered_at\<close> never changes once set fails on the handler:
  \<open>bob\<close>, registered at time 2000, registers again at time 3000; the call succeeds
  and the stored \<open>registered_at\<close> becomes 3000.
\<close>

theorem registered_at_restamped:
  "registered_at_of ''0a1b2c3d'' world_registered = Some (Some 2000)
   \<and> map_sum id ParticipantResponse.registered_at
        (fst (register_participant register_bob 3000 world_registered)) = Inr (Some 3000)
   \<and> registered_at_of ''0a1b2c3d'' (run_ops cdn [Register register_bob 3000] world_registered)
       = Some (Some 3000)"
proof -
  have 1: "registered_at_of ''0a1b2c3d'' world_registered = Some (Some 2000)"
    by (simp add: registered_at_of_def get_bob_2 bob_2_def)
  have 2: "map_sum id ParticipantResponse.registered_at
        (fst (register_participant register_bob 3000 world_registered)) = Inr (Some 3000)"
    by (simp add: register_bob_again response_of_def)
  have 3: "registered_at_of ''0a1b2c3d'' (run_ops cdn [Register register_bob 3000] world_registered)
       = Some (Some 3000)"
    using register_sets_registered_at [OF register_bob_again, of 3000]
    by (simp add: run_ops_def register_bob_def)
  from 1 2 3 show ?thesis by blast
qed

theorem registered_at_changed_only_by_register_witness:
  "registered_at_of ''0a1b2c3d'' (run_ops cdn later_ops world_registered) = Some (Some 2000)
   \<and> registered_at_of ''0a1b2c3d'' (snd (register_participant register_bob 2000 world_avatar))
       = Some (Some 2000)"
proof -
  have ops: "list_all (\<lambda>op. \<not> registers ''0a1b2c3d'' op) later_ops"
    by (simp add: later_ops_def)
  have reg: "registered_at_of ''0a1b2c3d'' world_registered = Some (Some 2000)"
    by (simp add: registered_at_of_def get_bob_2 bob_2_def)
  have pid: "ParticipantRegister.participant_id register_bob = ''0a1b2c3d''"
    by (simp add: register_bob_def)
  from registered_at_changed_only_by_register
         [where pid = "''0a1b2c3d''" and ops = later_ops and g = cdn and w = world_registered
            and d = register_bob and now = 2000 and w' = world_avatar]
       ops reg register_bob_first pid
  show ?thesis by simp
qed

lemma world_bob_storage:
  "refused world_bob = []" "bucket world_bob = []"
  by (simp_all add: world_bob_eq)

lemma upload_evidence_bob:
  "fst (upload_evidence cdn ''0a1b2c3d'' png_file jpeg_file mp4_file world_bob)
     = Inr \<lparr>EvidenceResult.status = ''success'',
            evidence_urls =
              [(''soil'', ''https://storage.example/evidence/E2/0a1b2c3d/soil_sample.png''),
               (''stars'', ''https://storage.example/evidence/E2/0a1b2c3d/star_field.jpg''),
               (''flora'', ''https://storage.example/evidence/E2/0a1b2c3d/flora_recording.mp4'')]\<rparr>"
  by (simp add: upload_evidence_def get_bob_0 bob_0_def Let_def png_file_def jpeg_file_def
        mp4_file_def evidence_ext_def evidence_path_def upload_avatar_image_def cdn_def
        world_bob_storage sublist_code prefix_code init_request_def)

theorem upload_evidence_extensions_witness:
  "EvidenceResult.evidence_urls
     (projr (fst (upload_evidence cdn ''0a1b2c3d'' png_file jpeg_file mp4_file world_bob)))
     = [(''soil'', cdn ''evidence/E2/0a1b2c3d/soil_sample.png''),
        (''stars'', cdn ''evidence/E2/0a1b2c3d/star_field.jpg''),
        (''flora'', cdn ''evidence/E2/0a1b2c3d/flora_recording.mp4'')]
   \<and> map_option participant.evidence_urls
        (get_participant ''0a1b2c3d''
          (snd (upload_evidence cdn ''0a1b2c3d'' png_file jpeg_file mp4_file world_bob)))
     = Some (Some [(''soil'', cdn ''evidence/E2/0a1b2c3d/soil_sample.png''),
                   (''stars'', cdn ''evidence/E2/0a1b2c3d/star_field.jpg''),
                   (''flora'', cdn ''evidence/E2/0a1b2c3d/flora_recording.mp4'')])
   \<and> map_of (bucket (snd (upload_evidence cdn ''0a1b2c3d'' png_file jpeg_file mp4_file world_bob)))
        ''evidence/E2/0a1b2c3d/flora_recording.mp4'' = Some mp4_file
   \<and> evidence_ext ''video/mp4'' = ''mp4'' \<and> evidence_ext ''image/png'' = ''png''
   \<and> evidence_ext ''image/jpeg'' = ''jpg''"
proof -
  let ?u = "upload_evidence cdn ''0a1b2c3d'' png_file jpeg_file mp4_file world_bob"
  have run: "?u = (Inr (projr (fst ?u)), snd ?u)"
    by (simp add: upload_evidence_bob prod_eq_iff)
  have ev: "participant.event_code bob_0 = ''E2''"
    by (simp add: bob_0_def init_request_def)
  have ext: "evidence_ext ''video/mp4'' = ''mp4''" "evidence_ext ''image/png'' = ''png''"
    "evidence_ext ''image/jpeg'' = ''jpg''"
    by (simp_all add: evidence_ext_def sublist_code prefix_code)
  have ct: "content_type png_file = Some ''image/png''"
    "content_type jpeg_file = Some ''image/jpeg''" "content_type mp4_file = Some ''video/mp4''"
    by (simp_all add: png_file_def jpeg_file_def mp4_file_def)
  from upload_evidence_extensions [OF get_bob_0 ct run, of "''video/mp4''"] ext ev
  show ?thesis
    by (auto simp: evidence_path_def)
qed

section \<open>Concurrent calls of init\_participant: the username check is not atomic\<close>

text \<open>
  A call that runs its three steps with no other call in between is the handler
  \<open>init_participant\<close>: the step model adds nothing but the places where control is
  given up.
\<close>

lemma interleave_sequential:
  "interleave W H [0, 0, 0] [start_init d rnd now] w
     = ([(start_init d rnd now)\<lparr>pc := Returned (fst (init_participant W H d rnd now w))\<rparr>],
        snd (init_participant W H d rnd now w))"
  by (simp add: init_step_def start_init_def init_participant_def Let_def
        split: option.splits sum.splits)

text \<open>
  Served one after the other, of two calls for \<open>bob\<close> in \<open>E2\<close> the first succeeds
  and the second gets 409 "Username already taken".
\<close>

lemma one_after_the_other:
  "interleave 100 100 [0, 0, 0, 1, 1, 1] [call_A, call_B] world_0
     = ([call_A\<lparr>pc := Returned
            (Inr \<lparr>ParticipantInitResponse.participant_id = ''0a1b2c3d'', username = ''bob'',
                   event_code = ''E2'', starting_x = 29, starting_y = 87\<rparr>)\<rparr>,
         call_B\<lparr>pc := Returned (Inl (HTTPException 409 ''Username already taken''))\<rparr>],
        world_bob)"
  by (simp add: world_bob_eq)
     (simp add: call_A_def call_B_def start_init_def init_step_def ex_defs randint_def
        create_participant_def count_up_def Let_def new_participant_def)

text \<open>
  Claim C2. The specification asks that of concurrent calls with the same event code and
  username exactly one succeeds and every other gets a uniqueness conflict, the
  availability check and the creation being one atomic operation. The handler does not
  do that: it reads with \<open>check_username_exists\<close> (line 68) and writes with
  \<open>create_participant\<close> (line 94) in two separate awaited calls, and after the read
  nothing can raise a conflict any more. When both calls make the read before either
  makes the write (schedule A, A, B, B, A, B on \<open>world_0\<close>, where \<open>E2\<close> has spare
  capacity and no \<open>bob\<close>), both return the success response and the state ends with
  two participants named \<open>bob\<close> in \<open>E2\<close>.
\<close>

theorem concurrent_init_both_succeed:
  "interleave 100 100 [0, 0, 1, 1, 0, 1] [call_A, call_B] world_0
     = ([call_A\<lparr>pc := Returned
            (Inr \<lparr>ParticipantInitResponse.participant_id = ''0a1b2c3d'', username = ''bob'',
                   event_code = ''E2'', starting_x = 29, starting_y = 87\<rparr>)\<rparr>,
         call_B\<lparr>pc := Returned
            (Inr \<lparr>ParticipantInitResponse.participant_id = ''9f8e7d6c'', username = ''bob'',
                   event_code = ''E2'', starting_x = 15, starting_y = 43\<rparr>)\<rparr>],
        create_participant
          (new_participant (init_request ''E2'' ''bob'') ''9f8e7d6c'' 15 43 1001) world_bob)
   \<and> map (\<lambda>(k, p). (k, participant.event_code p, participant.username p))
         (participants (snd (interleave 100 100 [0, 0, 1, 1, 0, 1] [call_A, call_B] world_0)))
     = [(''0a1b2c3d'', ''E2'', ''bob''), (''9f8e7d6c'', ''E2'', ''bob'')]"
  by (simp add: world_bob_eq)
     (simp add: call_A_def call_B_def start_init_def init_step_def ex_defs randint_def
        create_participant_def count_up_def Let_def new_participant_def)


end
